theory Spec2Isabelle
  imports Main
begin

section \<open>Exceptions\<close>

text \<open>
  The exceptions the two scripts can raise, as values. \<open>ParseError\<close> is parsy's (a
  grammar did not match), \<open>ParserError\<close> is PyYAML's \<open>yaml.parser.ParserError\<close>: two
  unrelated classes. \<open>IndexError\<close> and \<open>KeyError\<close> are Python's two \<open>LookupError\<close>s.
  Messages are not modelled.
\<close>

datatype error =
    IndexError | KeyError | TypeError | AttributeError
  | ParseError | ParserError | StructureError | AlignmentError


section \<open>The parsy combinators both scripts use\<close>

text \<open>
  A parsy parser reads a string from a position and either fails or returns a value and
  the position after it; here it maps the remaining input to the value and the rest.
  Alternatives are ordered and committed, repetition is greedy: a parser that has
  succeeded is never re-entered. The regular expressions of the sources are all one
  character class under \<open>+\<close>, \<open>*\<close> or taken once, so a greedy match is the longest
  prefix inside the class. Strings are \<open>char list\<close>: code points below 256, where
  \<open>\d\<close> is exactly \<open>0\<close> to \<open>9\<close>.
\<close>

type_synonym 'a parser = "string \<Rightarrow> ('a \<times> string) option"

definition string_p :: "string \<Rightarrow> string parser" where
  "string_p t s = (if take (length t) s = t then Some (t, drop (length t) s) else None)"

definition regex_plus :: "(char \<Rightarrow> bool) \<Rightarrow> string parser" where
  "regex_plus cls s =
     (if takeWhile cls s = [] then None else Some (takeWhile cls s, dropWhile cls s))"

definition regex_star :: "(char \<Rightarrow> bool) \<Rightarrow> string parser" where
  "regex_star cls s = Some (takeWhile cls s, dropWhile cls s)"

definition regex_one :: "(char \<Rightarrow> bool) \<Rightarrow> string parser" where
  "regex_one cls s = (case s of [] \<Rightarrow> None | c # r \<Rightarrow> if cls c then Some ([c], r) else None)"

definition success :: "'a \<Rightarrow> 'a parser" where
  "success v s = Some (v, s)"

definition map_p :: "('a \<Rightarrow> 'b) \<Rightarrow> 'a parser \<Rightarrow> 'b parser" where
  "map_p f p s = (case p s of None \<Rightarrow> None | Some (v, r) \<Rightarrow> Some (f v, r))"

definition seq2 :: "'a parser \<Rightarrow> 'b parser \<Rightarrow> ('a \<times> 'b) parser" where
  "seq2 p q s =
     (case p s of None \<Rightarrow> None
      | Some (a, r) \<Rightarrow> (case q r of None \<Rightarrow> None | Some (b, r') \<Rightarrow> Some ((a, b), r')))"

text \<open>\<open>p + q\<close> on string parsers concatenates, \<open>p >> q\<close> keeps the right
  value, \<open>p << q\<close> the left one, \<open>p | q\<close> tries \<open>q\<close> only where \<open>p\<close> fails.\<close>

definition add_p :: "string parser \<Rightarrow> string parser \<Rightarrow> string parser" where
  "add_p p q = map_p (\<lambda>(a, b). a @ b) (seq2 p q)"

definition then_p :: "'a parser \<Rightarrow> 'b parser \<Rightarrow> 'b parser" where
  "then_p p q = map_p snd (seq2 p q)"

definition skip_p :: "'a parser \<Rightarrow> 'b parser \<Rightarrow> 'a parser" where
  "skip_p p q = map_p fst (seq2 p q)"

definition alt :: "'a parser \<Rightarrow> 'a parser \<Rightarrow> 'a parser" where
  "alt p q s = (case p s of None \<Rightarrow> q s | Some x \<Rightarrow> Some x)"

text \<open>
  \<open>p.many()\<close> and \<open>p.times(min, inf)\<close> with \<open>min \<le> 0\<close>: apply \<open>p\<close> until it fails.
  parsy would loop forever on a \<open>p\<close> that succeeds without consuming input; the guard
  makes that case \<open>None\<close>. No parser repeated in the grammars below can succeed on
  nothing (\<open>repeated_parsers_consume\<close>), and on such a parser \<open>many\<close> always
  returns (\<open>many_total\<close>).
\<close>

function many :: "'a parser \<Rightarrow> 'a list parser" where
  "many p s =
     (case p s of None \<Rightarrow> Some ([], s)
      | Some (v, r) \<Rightarrow>
          if length r < length s
          then (case many p r of None \<Rightarrow> None | Some (vs, r') \<Rightarrow> Some (v # vs, r'))
          else None)"
  by pat_completeness auto
termination
  by (relation "measure (\<lambda>(p, s). length s)") auto

declare many.simps [simp del]

definition at_least1 :: "'a parser \<Rightarrow> 'a list parser" where
  "at_least1 p = map_p (\<lambda>(v, vs). v # vs) (seq2 p (many p))"

text \<open>\<open>p.sep_by(sep)\<close> is \<open>p.times(1) + (sep >> p).times(-1, inf) | success([])\<close>;
  with \<open>min=1\<close> there is no empty alternative.\<close>

definition sep_by1 :: "'a parser \<Rightarrow> 'b parser \<Rightarrow> 'a list parser" where
  "sep_by1 p sep = map_p (\<lambda>(v, vs). v # vs) (seq2 p (many (then_p sep p)))"

definition sep_by :: "'a parser \<Rightarrow> 'b parser \<Rightarrow> 'a list parser" where
  "sep_by p sep = alt (sep_by1 p sep) (success [])"

text \<open>\<open>p.parse(s)\<close>: the whole string must be read, else parsy raises ParseError.\<close>

definition parse :: "'a parser \<Rightarrow> string \<Rightarrow> 'a option" where
  "parse p s = (case p s of Some (v, []) \<Rightarrow> Some v | _ \<Rightarrow> None)"

section \<open>ggg2bilou.py: the span numbering of a UR\<close>

record Character =
  char :: char
  tag :: string
  op :: string
  span :: int
  gloss :: string

text \<open>
  The locals of \<open>parse_ur_morph\<close>. \<open>st_morphs\<close> is the next number the generator
  \<open>morphs\<close> yields: 1 after the \<open>next(morphs)\<close> that opens the function. The
  \<open>print(span)\<close> of the \<open>>\<close> case writes to standard output and is left out.
\<close>

record ur_state =
  st_morphs :: nat
  st_chars :: "Character list"
  st_matrix :: int
  st_span :: int
  st_tag :: string
  st_op :: string
  st_morph_type :: string

definition ur_init :: ur_state where
  "ur_init = \<lparr>st_morphs = 1, st_chars = [], st_matrix = 0, st_span = 0,
     st_tag = ''B'', st_op = ''S'', st_morph_type = ''root''\<rparr>"

text \<open>\<open>chars[-1].tag = t\<close> on a list the caller knows is not empty.\<close>

definition set_last_tag :: "string \<Rightarrow> Character list \<Rightarrow> Character list" where
  "set_last_tag t cs = butlast cs @ [(last cs)\<lparr>tag := t\<rparr>]"

text \<open>The \<open>}\<close> case: \<open>chars[-1]\<close> raises IndexError on an empty list, before the
  \<open>len(chars) == 0\<close> test can be reached.\<close>

definition close_proc :: "ur_state \<Rightarrow> error + ur_state" where
  "close_proc s =
     (if st_chars s = [] then Inl IndexError
      else
        let cs = st_chars s;
            cs1 = (if op (last cs) = ''A''
                   then (let cs' = set_last_tag ''L'' cs in
                         if length cs' = 0 \<or>
                            (length cs' > 1 \<and> span (cs' ! (length cs' - 2)) \<noteq> st_span s)
                         then set_last_tag ''U'' cs' else cs')
                   else cs)
        in Inr (s\<lparr>st_chars := cs1, st_span := st_matrix s, st_op := ''S''\<rparr>))"

text \<open>One turn of the loop \<open>for i, c in enumerate(morph)\<close>; \<open>n\<close> is
  \<open>len(morph)\<close>.\<close>

definition ur_step :: "nat \<Rightarrow> ur_state \<Rightarrow> nat \<times> char \<Rightarrow> error + ur_state" where
  "ur_step n s ic =
     (let i = fst ic; c = snd ic in
      if c = CHR '' '' then
        Inr (s\<lparr>st_morphs := Suc (st_morphs s), st_matrix := int (st_morphs s),
                st_span := int (st_morphs s), st_tag := ''B'', st_op := ''S''\<rparr>)
      else if c = CHR ''-'' then
        Inr (if i = 0 then s\<lparr>st_morph_type := ''suffix''\<rparr>
             else if int i = int n - 1 then s\<lparr>st_morph_type := ''prefix''\<rparr>
             else s)
      else if c = CHR ''{'' then Inr (s\<lparr>st_op := ''D''\<rparr>)
      else if c = CHR ''>'' then
        Inr (s\<lparr>st_morphs := Suc (st_morphs s), st_span := int (st_morphs s),
                st_tag := ''B'', st_op := ''A''\<rparr>)
      else if c = CHR ''}'' then close_proc s
      else
        Inr (s\<lparr>st_chars := st_chars s @
                  [\<lparr>char = c, tag = st_tag s, op = st_op s, span = st_span s, gloss = ''''\<rparr>],
                st_tag := (if st_tag s = ''B'' then ''I'' else st_tag s)\<rparr>))"

fun ur_run :: "nat \<Rightarrow> ur_state \<Rightarrow> (nat \<times> char) list \<Rightarrow> error + ur_state" where
  "ur_run n s [] = Inr s"
| "ur_run n s (ic # ics) =
     (case ur_step n s ic of Inl e \<Rightarrow> Inl e | Inr s' \<Rightarrow> ur_run n s' ics)"

text \<open>After the loop \<open>chars[-1].tag = "L"\<close>: IndexError when no character was
  emitted.\<close>

definition parse_ur_morph :: "string \<Rightarrow> error + (string \<times> Character list)" where
  "parse_ur_morph morph =
     (case ur_run (length morph) ur_init (enumerate 0 morph) of
        Inl e \<Rightarrow> Inl e
      | Inr s \<Rightarrow>
          if st_chars s = [] then Inl IndexError
          else Inr (st_morph_type s, set_last_tag ''L'' (st_chars s)))"

text \<open>\<open>ur.split(" ")\<close>: one piece more than there are spaces, empty pieces kept.\<close>

fun split_sp :: "string \<Rightarrow> string \<Rightarrow> string list" where
  "split_sp acc [] = [rev acc]"
| "split_sp acc (c # cs) =
     (if c = CHR '' '' then rev acc # split_sp [] cs else split_sp (c # acc) cs)"

text \<open>The list comprehension over the pieces: the first morph that raises ends it.\<close>

fun parse_morphs :: "string list \<Rightarrow> error + (string \<times> Character list) list" where
  "parse_morphs [] = Inr []"
| "parse_morphs (m # ms) =
     (case parse_ur_morph m of
        Inl e \<Rightarrow> Inl e
      | Inr r \<Rightarrow> (case parse_morphs ms of Inl e \<Rightarrow> Inl e | Inr rs \<Rightarrow> Inr (r # rs)))"

definition boundary :: Character where
  "boundary = \<lparr>char = CHR '' '', tag = ''O'', op = ''S'', span = - 1, gloss = ''''\<rparr>"

text \<open>The \<open>match (last_typ, typ)\<close> of \<open>parse_ur\<close>: both cases append the same
  character.\<close>

definition is_boundary :: "string \<Rightarrow> string \<Rightarrow> bool" where
  "is_boundary last_typ typ =
     ((last_typ = ''root'' \<and> typ = ''root'') \<or> (last_typ = ''root'' \<and> typ = ''prefix'') \<or>
      (last_typ = ''suffix'' \<and> typ = ''root'') \<or> (last_typ = ''suffix'' \<and> typ = ''prefix''))"

definition add_span :: "int \<Rightarrow> Character \<Rightarrow> Character" where
  "add_span k c = c\<lparr>span := span c + k\<rparr>"

text \<open>The loop of \<open>parse_ur\<close>; \<open>start\<close> is what \<open>next(matrix)\<close> yields for the
  morph at the head of the list.\<close>

fun ur_loop ::
  "nat \<Rightarrow> string \<Rightarrow> Character list \<Rightarrow> (string \<times> Character list) list \<Rightarrow> Character list" where
  "ur_loop start last_typ ur_chars [] = ur_chars"
| "ur_loop start last_typ ur_chars ((typ, chars) # ms) =
     ur_loop (Suc start) typ
       ((if is_boundary last_typ typ then ur_chars @ [boundary] else ur_chars)
          @ map (add_span (int start)) chars) ms"

definition parse_ur :: "string \<Rightarrow> error + Character list" where
  "parse_ur ur =
     (case parse_morphs (split_sp [] ur) of
        Inl e \<Rightarrow> Inl e
      | Inr ms \<Rightarrow> Inr (ur_loop 0 ''prefix'' [] ms))"

subsection \<open>The gloss grammar of \<open>parse_gloss\<close>\<close>

text \<open>
  The parsers are locals of \<open>parse_gloss\<close> (\<open>feature\<close>, \<open>spans\<close>,
  \<open>process_inner\<close>, \<open>process\<close>, \<open>morph\<close>, \<open>prefix\<close>, \<open>suffix\<close>, \<open>root\<close>,
  \<open>glosses\<close>); they carry the prefix \<open>pg_\<close> here. \<open>seq\<close> returns a Python list
  of two values, a pair here. \<open>int\<close> of a string matched by \<open>\d+\<close> is its decimal
  value.
\<close>

definition is_digit :: "char \<Rightarrow> bool" where
  "is_digit c = (c \<in> set ''0123456789'')"

definition digit_val :: "char \<Rightarrow> nat" where
  "digit_val c = of_char c - 48"

definition int_of_digits :: "string \<Rightarrow> int" where
  "int_of_digits ds = int (foldl (\<lambda>n c. 10 * n + digit_val c) 0 ds)"

type_synonym gl_process = "string \<times> int list"
type_synonym gl_morph = "string \<times> gl_process list"

definition pg_feature :: "string parser" where
  "pg_feature = regex_plus (\<lambda>c. c \<notin> set '' {};-'')"

definition pg_spans :: "int list parser" where
  "pg_spans =
     then_p (string_p '';'') (sep_by (map_p int_of_digits (regex_plus is_digit)) (string_p '',''))"

definition pg_process_inner :: "gl_process parser" where
  "pg_process_inner = alt (seq2 pg_feature pg_spans) (seq2 pg_feature (success []))"

definition pg_process :: "gl_process parser" where
  "pg_process = skip_p (then_p (string_p ''{'') pg_process_inner) (string_p ''}'')"

definition pg_morph :: "gl_morph parser" where
  "pg_morph = seq2 pg_feature (many pg_process)"

definition pg_prefix :: "gl_morph parser" where
  "pg_prefix = skip_p pg_morph (string_p ''-'')"

definition pg_suffix :: "gl_morph parser" where
  "pg_suffix = then_p (string_p ''-'') pg_morph"

definition pg_root :: "gl_morph parser" where
  "pg_root = pg_morph"

definition pg_glosses :: "gl_morph list parser" where
  "pg_glosses = sep_by (alt (alt pg_suffix pg_prefix) pg_root) (string_p '' '')"

definition parse_gloss :: "string \<Rightarrow> gl_morph list option" where
  "parse_gloss gl = parse pg_glosses gl"

subsection \<open>The binder of \<open>merged_form_gloss\<close>\<close>

text \<open>
  \<open>span_glosses\<close> is a dict from span ids to features. The state of the loops is the
  pair of \<open>offset\<close> and \<open>span_glosses\<close>; the inner loop over \<open>spans\<close> also carries
  \<open>max_sp\<close>, which starts at \<open>offset\<close>.
\<close>

type_synonym span_glosses = "int \<rightharpoonup> string"

definition bind_spans ::
  "int \<Rightarrow> string \<Rightarrow> span_glosses \<times> int \<Rightarrow> int list \<Rightarrow> span_glosses \<times> int" where
  "bind_spans matrix ft st spans =
     foldl (\<lambda>st sp. ((fst st)(matrix + sp \<mapsto> ft), max sp (snd st))) st spans"

text \<open>One process \<open>pr\<close>: \<open>case (ft, [])\<close> first, then \<open>case (ft, spans)\<close>.\<close>

definition bind_proc :: "int \<Rightarrow> int \<times> span_glosses \<Rightarrow> gl_process \<Rightarrow> int \<times> span_glosses" where
  "bind_proc matrix st pr =
     (let offset = fst st; sg = snd st; ft = fst pr; spans = snd pr in
      if spans = [] then (offset + 1, sg(matrix + offset \<mapsto> ft))
      else
        let r = bind_spans matrix ft (sg, offset) spans
        in (max (snd r + 1) (offset + 1), fst r))"

text \<open>One gloss morph \<open>(ft, prs)\<close> at index \<open>matrix\<close>.\<close>

definition bind_morph :: "int \<Rightarrow> int \<times> span_glosses \<Rightarrow> gl_morph \<Rightarrow> int \<times> span_glosses" where
  "bind_morph matrix st m =
     foldl (bind_proc matrix) (fst st, (snd st)(matrix \<mapsto> fst m)) (snd m)"




section \<open>validate_ggg.py\<close>

subsection \<open>The grammars of UR, SR and gloss lines\<close>

type_synonym form_token = "string \<times> string"
type_synonym form_morph = "string \<times> form_token list"
type_synonym gloss_process = "string \<times> int list"
type_synonym gloss_token = "string \<times> (string \<times> gloss_process list)"

definition form_seg :: "form_token parser" where
  "form_seg = map_p (\<lambda>x. (''seg'', x)) (regex_plus (\<lambda>c. c \<notin> set ''{}>= -''))"

definition ur_proc :: "form_token parser" where
  "ur_proc = map_p (\<lambda>x. (''proc'', x))
     (add_p (add_p (add_p (add_p (string_p ''{'') (regex_star (\<lambda>c. c \<notin> set ''}>'')))
        (string_p ''>'')) (regex_star (\<lambda>c. c \<notin> set ''}>''))) (string_p ''}''))"

definition sr_proc :: "form_token parser" where
  "sr_proc = map_p (\<lambda>x. (''proc'', x))
     (add_p (add_p (string_p ''{'') (regex_plus (\<lambda>c. c \<notin> set ''}''))) (string_p ''}''))"

definition ur_morph_core :: "form_token list parser" where
  "ur_morph_core = at_least1 (alt ur_proc form_seg)"

definition ur_prefix :: "form_morph parser" where
  "ur_prefix = map_p (\<lambda>(x, _). (''prefix'', x)) (seq2 ur_morph_core (string_p ''-''))"

definition ur_suffix :: "form_morph parser" where
  "ur_suffix = map_p (\<lambda>(_, x). (''suffix'', x)) (seq2 (string_p ''-'') ur_morph_core)"

definition ur_proclitic :: "form_morph parser" where
  "ur_proclitic = map_p (\<lambda>(x, _). (''proclitic'', x)) (seq2 ur_morph_core (string_p ''=''))"

definition ur_enclitic :: "form_morph parser" where
  "ur_enclitic = map_p (\<lambda>(_, x). (''enclitic'', x)) (seq2 (string_p ''='') ur_morph_core)"

definition ur_root :: "form_morph parser" where
  "ur_root = map_p (\<lambda>x. (''root'', x)) ur_morph_core"

definition ur_morph :: "form_morph parser" where
  "ur_morph = alt (alt (alt (alt ur_suffix ur_enclitic) ur_prefix) ur_proclitic) ur_root"

definition sr_morph_core :: "form_token list parser" where
  "sr_morph_core = at_least1 (alt sr_proc form_seg)"

definition sr_prefix :: "form_morph parser" where
  "sr_prefix = map_p (\<lambda>(x, _). (''prefix'', x)) (seq2 sr_morph_core (string_p ''-''))"

definition sr_suffix :: "form_morph parser" where
  "sr_suffix = map_p (\<lambda>(_, x). (''suffix'', x)) (seq2 (string_p ''-'') sr_morph_core)"

definition sr_proclitic :: "form_morph parser" where
  "sr_proclitic = map_p (\<lambda>(x, _). (''proclitic'', x)) (seq2 sr_morph_core (string_p ''=''))"

definition sr_enclitic :: "form_morph parser" where
  "sr_enclitic = map_p (\<lambda>(_, x). (''enclitic'', x)) (seq2 (string_p ''='') sr_morph_core)"

definition sr_root :: "form_morph parser" where
  "sr_root = map_p (\<lambda>x. (''root'', x)) sr_morph_core"

definition sr_morph :: "form_morph parser" where
  "sr_morph = alt (alt (alt (alt sr_suffix sr_enclitic) sr_prefix) sr_proclitic) sr_root"

definition ur_form :: "form_morph list parser" where
  "ur_form = sep_by ur_morph (string_p '' '')"

definition sr_form :: "form_morph list parser" where
  "sr_form = sep_by sr_morph (string_p '' '')"

text \<open>The gloss grammar. \<open>[0-9A-Z.]\<close> is spelled out; \<open>int\<close> of the one digit that
  \<open>\d\<close> matched is the digit's value. The source's parser \<open>gloss\<close> is
  \<open>gloss_parser\<close> here (\<open>gloss\<close> is a field of \<open>Character\<close>).\<close>

definition is_feature_char :: "char \<Rightarrow> bool" where
  "is_feature_char c = (c \<in> set ''0123456789ABCDEFGHIJKLMNOPQRSTUVWXYZ.'')"

definition gloss_seg :: "string parser" where
  "gloss_seg = regex_plus (\<lambda>c. c \<notin> set '' {}=-'')"

definition gloss_proc_qualified :: "gloss_process parser" where
  "gloss_proc_qualified = map_p (\<lambda>((x, idxs), _). (x, idxs))
     (seq2
        (seq2
           (add_p (add_p (map_p (\<lambda>_. []) (string_p ''{'')) (regex_plus is_feature_char))
              (map_p (\<lambda>_. []) (string_p '';'')))
           (sep_by1 (map_p int_of_digits (regex_one is_digit)) (string_p '','')))
        (string_p ''}''))"

definition gloss_proc_unqualified :: "gloss_process parser" where
  "gloss_proc_unqualified = map_p (\<lambda>x. (x, [- 1]))
     (add_p (add_p (map_p (\<lambda>_. []) (string_p ''{'')) (regex_plus is_feature_char))
        (map_p (\<lambda>_. []) (string_p ''}'')))"

definition gloss_proc :: "gloss_process parser" where
  "gloss_proc = alt gloss_proc_qualified gloss_proc_unqualified"

definition gloss_morph_core :: "(string \<times> gloss_process list) parser" where
  "gloss_morph_core = seq2 gloss_seg (many gloss_proc)"

definition gloss_morph_prefix :: "gloss_token parser" where
  "gloss_morph_prefix = map_p (\<lambda>(x, _). (''prefix'', x)) (seq2 gloss_morph_core (string_p ''-''))"

definition gloss_morph_proclitic :: "gloss_token parser" where
  "gloss_morph_proclitic =
     map_p (\<lambda>(x, _). (''proclitic'', x)) (seq2 gloss_morph_core (string_p ''=''))"

definition gloss_morph_suffix :: "gloss_token parser" where
  "gloss_morph_suffix = map_p (\<lambda>(_, x). (''suffix'', x)) (seq2 (string_p ''-'') gloss_morph_core)"

definition gloss_morph_enclitic :: "gloss_token parser" where
  "gloss_morph_enclitic =
     map_p (\<lambda>(_, x). (''enclitic'', x)) (seq2 (string_p ''='') gloss_morph_core)"

definition gloss_morph_root :: "gloss_token parser" where
  "gloss_morph_root = map_p (\<lambda>x. (''root'', x)) gloss_morph_core"

definition gloss_morph :: "gloss_token parser" where
  "gloss_morph =
     alt (alt (alt (alt gloss_morph_suffix gloss_morph_enclitic) gloss_morph_prefix)
       gloss_morph_proclitic) gloss_morph_root"

definition gloss_parser :: "gloss_token list parser" where
  "gloss_parser = sep_by gloss_morph (string_p '' '')"

subsection \<open>The document and its schema\<close>

text \<open>
  What \<open>yaml.load\<close> with the SafeLoader returns for the documents at hand: null,
  booleans, integers, floats, strings, lists and dicts. A dict is the list of its items
  in order; keys are strings (a key of another type is not in the schema either). Of a
  float only the runtime type is ever inspected: it is kept as mantissa and exponent.
\<close>

datatype yaml =
    YNull | YBool bool | YInt int | YFloat int int | YStr string
  | YList "yaml list" | YDict "(string \<times> yaml) list"

text \<open>The values of \<open>schema\<close> are the classes \<open>str\<close>, \<open>list\<close>, \<open>float\<close>,
  \<open>int\<close>, or a nested dict.\<close>

datatype pytype = Tstr | Tlist | Tfloat | Tint

datatype sch = SType pytype | SDict "(string \<times> sch) list"

definition schema :: sch where
  "schema = SDict
     [(''obj_lang'', SType Tstr),
      (''meta_lang'', SType Tlist),
      (''segs'', SDict
         [(''start'', SType Tfloat), (''end'', SType Tfloat), (''speaker'', SType Tint),
          (''ur'', SType Tstr), (''sr'', SType Tstr), (''gl'', SType Tstr),
          (''tr'', SType Tstr)])]"

text \<open>\<open>isinstance(value, cls)\<close>; \<open>bool\<close> is a subclass of \<open>int\<close>.\<close>

fun isinstance :: "yaml \<Rightarrow> pytype \<Rightarrow> bool" where
  "isinstance (YStr _) Tstr = True"
| "isinstance (YList _) Tlist = True"
| "isinstance (YFloat _ _) Tfloat = True"
| "isinstance (YInt _) Tint = True"
| "isinstance (YBool _) Tint = True"
| "isinstance _ _ = False"

text \<open>
  \<open>helper(obj, sch)\<close> over the items of the dict \<open>obj\<close>. When \<open>sch\<close> is a class
  (the recursion went into a dict stored under a leaf key), \<open>key not in sch\<close> raises
  TypeError. A value that is not a dict is compared with \<open>sch[key]\<close> only when
  \<open>sch[key]\<close> is a class.
\<close>

fun helper :: "(string \<times> yaml) list \<Rightarrow> sch \<Rightarrow> error + unit" where
  "helper [] sc = Inr ()"
| "helper ((key, v) # rest) sc =
     (case sc of
        SType _ \<Rightarrow> Inl TypeError
      | SDict flds \<Rightarrow>
          (case map_of flds key of
             None \<Rightarrow> Inl StructureError
           | Some sk \<Rightarrow>
               (case v of
                  YDict items \<Rightarrow>
                    (case helper items sk of Inl e \<Rightarrow> Inl e | Inr _ \<Rightarrow> helper rest sc)
                | _ \<Rightarrow>
                    (case sk of
                       SDict _ \<Rightarrow> helper rest sc
                     | SType t \<Rightarrow>
                         if isinstance v t then helper rest sc else Inl StructureError))))"

text \<open>\<open>validate_fields(doc)\<close>: \<open>doc.items()\<close> raises AttributeError when the
  document is not a dict.\<close>

definition validate_fields :: "yaml \<Rightarrow> error + unit" where
  "validate_fields doc =
     (case doc of YDict items \<Rightarrow> helper items schema | _ \<Rightarrow> Inl AttributeError)"

subsection \<open>The checks across UR, SR and gloss\<close>

text \<open>\<open>num_gloss_procs\<close> is accumulated by a loop, \<open>num_form_procs\<close> sums a list of
  ones. The comparison is an \<open>assert\<close> whose AssertionError is raised again as an
  AlignmentError; it is modelled as Python runs it without \<open>-O\<close>.\<close>

definition num_gloss_procs :: "gloss_process list \<Rightarrow> int" where
  "num_gloss_procs g_procs = foldl (\<lambda>n p. n + int (length (snd p))) 0 g_procs"

definition num_form_procs :: "form_token list \<Rightarrow> int" where
  "num_form_procs form = sum_list (map (\<lambda>_. 1) (filter (\<lambda>t. fst t = ''proc'') form))"

definition validate_procs ::
  "form_token list \<Rightarrow> form_token list \<Rightarrow> string \<times> gloss_process list \<Rightarrow> error + unit" where
  "validate_procs u s g =
     (if num_form_procs u = num_form_procs s \<and> num_form_procs s = num_gloss_procs (snd g)
      then Inr () else Inl AlignmentError)"

text \<open>The loop over the tokens of one segment, \<open>zip(ur, sr, gl)\<close> of three lists of
  the same length. The AlignmentError of \<open>validate_procs\<close> is raised again as an
  AlignmentError with another message.\<close>

fun validate_tokens ::
  "form_morph list \<Rightarrow> form_morph list \<Rightarrow> gloss_token list \<Rightarrow> error + unit" where
  "validate_tokens ((u_type, u) # us) ((s_type, s) # ss) ((g_type, g) # gs) =
     (if u_type = s_type \<and> s_type = g_type
      then (case validate_procs u s g of
              Inl e \<Rightarrow> Inl e
            | Inr _ \<Rightarrow> validate_tokens us ss gs)
      else Inl AlignmentError)"
| "validate_tokens _ _ _ = Inr ()"

text \<open>
  \<open>seg[k]\<close>: KeyError when the dict has no such key, TypeError when \<open>seg\<close> is not a
  dict (a list or string indexed by a string, or a value that has no items).
\<close>

definition subscript :: "yaml \<Rightarrow> string \<Rightarrow> error + yaml" where
  "subscript v k =
     (case v of
        YDict items \<Rightarrow> (case map_of items k of None \<Rightarrow> Inl KeyError | Some x \<Rightarrow> Inr x)
      | _ \<Rightarrow> Inl TypeError)"

text \<open>
  \<open>p.parse(seg[k])\<close> inside \<open>try ... except ParseError\<close>: a parse failure becomes a
  StructureError; a missing key or a value that is not a string raises before or inside
  parsy and is not caught here (parsy slices or matches the value: TypeError, which for
  a dict value is a KeyError from Python 3.12 on; \<open>validate\<close> catches neither).
\<close>

definition parse_field :: "'a list parser \<Rightarrow> yaml \<Rightarrow> string \<Rightarrow> error + 'a list" where
  "parse_field p seg k =
     (case subscript seg k of
        Inl e \<Rightarrow> Inl e
      | Inr (YStr s) \<Rightarrow> (case parse p s of None \<Rightarrow> Inl StructureError | Some r \<Rightarrow> Inr r)
      | Inr _ \<Rightarrow> Inl TypeError)"

definition validate_seg :: "yaml \<Rightarrow> error + unit" where
  "validate_seg seg =
     (case parse_field ur_form seg ''ur'' of
        Inl e \<Rightarrow> Inl e
      | Inr ur \<Rightarrow>
          (case parse_field sr_form seg ''sr'' of
             Inl e \<Rightarrow> Inl e
           | Inr sr \<Rightarrow>
               (case parse_field gloss_parser seg ''gl'' of
                  Inl e \<Rightarrow> Inl e
                | Inr gl \<Rightarrow>
                    if length ur = length sr \<and> length sr = length gl
                    then validate_tokens ur sr gl
                    else Inl AlignmentError)))"

fun validate_seg_list :: "yaml list \<Rightarrow> error + unit" where
  "validate_seg_list [] = Inr ()"
| "validate_seg_list (seg # segs) =
     (case validate_seg seg of Inl e \<Rightarrow> Inl e | Inr _ \<Rightarrow> validate_seg_list segs)"

text \<open>
  \<open>validate_segs(doc)\<close> iterates over \<open>doc["segs"]\<close>: the elements of a list, the
  keys of a dict, the characters of a string (keys and characters are strings, on which
  \<open>seg["ur"]\<close> raises TypeError); any other value is not iterable.
\<close>

definition validate_segs :: "yaml \<Rightarrow> error + unit" where
  "validate_segs doc =
     (case subscript doc ''segs'' of
        Inl e \<Rightarrow> Inl e
      | Inr (YList segs) \<Rightarrow> validate_seg_list segs
      | Inr (YDict items) \<Rightarrow> validate_seg_list (map (\<lambda>kv. YStr (fst kv)) items)
      | Inr (YStr s) \<Rightarrow> validate_seg_list (map (\<lambda>c. YStr [c]) s)
      | Inr _ \<Rightarrow> Inl TypeError)"

subsection \<open>The top level\<close>

text \<open>
  \<open>validate(fn, verbose)\<close> opens and loads the file itself; what \<open>open\<close> and
  \<open>yaml.load\<close> do with the file is the parameter \<open>loaded\<close>. The result is what was
  printed, and the exception that leaves \<open>validate\<close>, if one does. \<open>print(exc)\<close> is
  recorded as the exception printed.
\<close>

datatype loaded = OpenRaises error | LoadRaises error | Loaded yaml

datatype out = Line string | Printed error

text \<open>The three \<open>except\<close> clauses of the outer \<open>try\<close>: parsy's ParseError,
  StructureError and AlignmentError.\<close>

definition outer_except :: "out list \<Rightarrow> error \<Rightarrow> out list \<times> error option" where
  "outer_except printed e =
     (if e = ParseError \<or> e = StructureError \<or> e = AlignmentError
      then (printed @ [Printed e], None)
      else (printed, Some e))"

definition say :: "bool \<Rightarrow> string \<Rightarrow> out list" where
  "say verbose msg = (if verbose then [Line msg] else [])"

definition validate :: "string \<Rightarrow> loaded \<Rightarrow> bool \<Rightarrow> out list \<times> error option" where
  "validate fn file verbose =
     (let p0 = [Line (''Validating '' @ fn @ ''...'')] in
      case file of
        OpenRaises e \<Rightarrow> outer_except p0 e
      | LoadRaises e \<Rightarrow> outer_except (p0 @ say verbose ''Valid YAML?...'') e
      | Loaded doc \<Rightarrow>
          (let p1 = p0 @ say verbose ''Valid YAML?...'' @ say verbose ''Valid YAML fields?...'' in
           case validate_fields doc of
             Inl e \<Rightarrow> outer_except p1 e
           | Inr _ \<Rightarrow>
               (let p2 = p1 @ say verbose ''Valid forms and gloses?...'' in
                case validate_segs doc of
                  Inl e \<Rightarrow> outer_except p2 e
                | Inr _ \<Rightarrow> (p2 @ [Line ''Valid.''], None))))"

section \<open>Notions used in the statements and proofs\<close>


text \<open>A parser consumes when every success leaves strictly less input, shrinks when
  it never leaves more, and returns \<open>P\<close> when every value it yields satisfies \<open>P\<close>.\<close>

definition consumes :: "'a parser \<Rightarrow> bool" where
  "consumes p = (\<forall>s v r. p s = Some (v, r) \<longrightarrow> length r < length s)"

definition shrinks :: "'a parser \<Rightarrow> bool" where
  "shrinks p = (\<forall>s v r. p s = Some (v, r) \<longrightarrow> length r \<le> length s)"






section \<open>Theorems\<close>

subsection \<open>The primitive parsers on inputs of a known shape\<close>

lemma string_p_Some: "string_p t s = Some (v, r) \<Longrightarrow> v = t \<and> s = t @ r"
  by (auto simp: string_p_def split: if_splits) (metis append_take_drop_id)

lemma string_p_Cons:
  "string_p [a] (c # r) = (if c = a then Some ([a], r) else None)"
  by (auto simp: string_p_def)

lemma regex_star_app:
  "\<forall>c\<in>set xs. cls c \<Longrightarrow> \<not> cls d \<Longrightarrow> regex_star cls (xs @ d # r) = Some (xs, d # r)"
  by (simp add: regex_star_def takeWhile_tail dropWhile_append3 takeWhile_eq_all_conv[THEN iffD2])

lemma regex_plus_app:
  "\<forall>c\<in>set xs. cls c \<Longrightarrow> xs \<noteq> [] \<Longrightarrow> \<not> cls d \<Longrightarrow>
     regex_plus cls (xs @ d # r) = Some (xs, d # r)"
  by (simp add: regex_plus_def takeWhile_tail dropWhile_append3 takeWhile_eq_all_conv[THEN iffD2])

subsection \<open>Repetition returns\<close>

text \<open>
  \<open>many\<close> never fails on a parser that consumes, and there its guard can be dropped:
  the equation of \<open>many_guard_free\<close> is parsy's loop.
\<close>

lemma consumes_shrinks: "consumes p \<Longrightarrow> shrinks p"
  by (auto simp: consumes_def shrinks_def dest: less_imp_le)

lemma shrinks_string_p: "shrinks (string_p t)"
  by (auto simp: shrinks_def string_p_def split: if_splits)

lemma consumes_string_p: "t \<noteq> [] \<Longrightarrow> consumes (string_p t)"
  by (auto simp: consumes_def dest!: string_p_Some)

lemma shrinks_regex_star: "shrinks (regex_star cls)"
  by (auto simp: shrinks_def regex_star_def length_dropWhile_le)

lemma consumes_regex_plus: "consumes (regex_plus cls)"
proof -
  have "length (dropWhile cls s) < length s" if "takeWhile cls s \<noteq> []" for s
  proof -
    have "length (takeWhile cls s) + length (dropWhile cls s) = length s"
      by (metis length_append takeWhile_dropWhile_id)
    then show ?thesis using that by (cases "takeWhile cls s") auto
  qed
  then show ?thesis by (auto simp: consumes_def regex_plus_def split: if_splits)
qed

lemma consumes_regex_one: "consumes (regex_one cls)"
  by (auto simp: consumes_def regex_one_def split: list.splits if_splits)

lemma shrinks_success: "shrinks (success v)"
  by (simp add: shrinks_def success_def)

lemma shrinks_map_p: "shrinks p \<Longrightarrow> shrinks (map_p f p)"
  by (auto simp: shrinks_def map_p_def split: option.splits)

lemma consumes_map_p: "consumes p \<Longrightarrow> consumes (map_p f p)"
  by (auto simp: consumes_def map_p_def split: option.splits)

lemma shrinks_seq2: "shrinks p \<Longrightarrow> shrinks q \<Longrightarrow> shrinks (seq2 p q)"
  by (fastforce simp: shrinks_def seq2_def split: option.splits)

lemma consumes_seq2_left: "consumes p \<Longrightarrow> shrinks q \<Longrightarrow> consumes (seq2 p q)"
  by (fastforce simp: consumes_def shrinks_def seq2_def split: option.splits)

lemma consumes_seq2_right: "shrinks p \<Longrightarrow> consumes q \<Longrightarrow> consumes (seq2 p q)"
  by (fastforce simp: consumes_def shrinks_def seq2_def split: option.splits)

lemma shrinks_alt: "shrinks p \<Longrightarrow> shrinks q \<Longrightarrow> shrinks (alt p q)"
  by (auto simp: shrinks_def alt_def split: option.splits)

lemma consumes_alt: "consumes p \<Longrightarrow> consumes q \<Longrightarrow> consumes (alt p q)"
  by (auto simp: consumes_def alt_def split: option.splits)

lemma many_shrinks_aux: "many p s = Some (vs, r) \<Longrightarrow> length r \<le> length s"
proof (induction p s arbitrary: vs r rule: many.induct)
  case (1 p s)
  show ?case
  proof (cases "p s")
    case None
    then show ?thesis using "1.prems" by (simp add: many.simps[of p s])
  next
    case (Some x)
    obtain v r1 where x: "x = (v, r1)" by (cases x)
    from "1.prems" Some x obtain vs' where
      lt: "length r1 < length s" and m: "many p r1 = Some (vs', r)"
      by (auto simp: many.simps[of p s] split: if_splits option.splits)
    have "length r \<le> length r1" using "1.IH"[OF Some x[symmetric] lt m] .
    then show ?thesis using lt by simp
  qed
qed

lemma shrinks_many: "shrinks (many p)"
  unfolding shrinks_def using many_shrinks_aux by blast

lemma many_total: "consumes p \<Longrightarrow> \<exists>vs r. many p s = Some (vs, r)"
proof (induction p s rule: many.induct)
  case (1 p s)
  show ?case
  proof (cases "p s")
    case None
    then show ?thesis by (simp add: many.simps[of p s])
  next
    case (Some x)
    obtain v r1 where x: "x = (v, r1)" by (cases x)
    have lt: "length r1 < length s" using "1.prems" Some x by (auto simp: consumes_def)
    obtain vs r where "many p r1 = Some (vs, r)"
      using "1.IH"[OF Some x[symmetric] lt "1.prems"] by blast
    then show ?thesis using Some x lt by (simp add: many.simps[of p s])
  qed
qed

lemma many_guard_free:
  "consumes p \<Longrightarrow> many p s =
     (case p s of None \<Rightarrow> Some ([], s)
      | Some (v, r) \<Rightarrow> (case many p r of None \<Rightarrow> None | Some (vs, r') \<Rightarrow> Some (v # vs, r')))"
  by (subst many.simps) (auto simp: consumes_def split: option.splits)

lemmas shrinks_regex_plus = consumes_shrinks [OF consumes_regex_plus]

lemmas shrinks_regex_one = consumes_shrinks [OF consumes_regex_one]

lemmas shrinks_intros =
  shrinks_string_p shrinks_regex_star shrinks_regex_plus shrinks_regex_one shrinks_success
  shrinks_map_p shrinks_seq2 shrinks_alt shrinks_many

lemma shrinks_pg_process_inner: "shrinks pg_process_inner"
  unfolding pg_process_inner_def pg_feature_def pg_spans_def then_p_def sep_by_def sep_by1_def
  by (intro shrinks_intros)

lemma consumes_pg_process: "consumes pg_process"
  unfolding pg_process_def skip_p_def then_p_def
  by (intro consumes_map_p consumes_seq2_right shrinks_seq2 shrinks_map_p shrinks_string_p
        shrinks_pg_process_inner consumes_string_p) simp

lemma consumes_form_seg: "consumes form_seg"
  unfolding form_seg_def by (intro consumes_map_p consumes_regex_plus)

lemma consumes_ur_proc: "consumes ur_proc"
  unfolding ur_proc_def add_p_def
  by (intro consumes_map_p consumes_seq2_right shrinks_intros consumes_string_p) simp

lemma consumes_sr_proc: "consumes sr_proc"
  unfolding sr_proc_def add_p_def
  by (intro consumes_map_p consumes_seq2_right shrinks_intros consumes_string_p) simp

lemma consumes_gloss_proc: "consumes gloss_proc"
  unfolding gloss_proc_def gloss_proc_qualified_def gloss_proc_unqualified_def add_p_def
    sep_by1_def then_p_def
  by (intro consumes_alt consumes_map_p consumes_seq2_right shrinks_intros consumes_string_p)
     simp_all

lemma consumes_separated: "shrinks p \<Longrightarrow> t \<noteq> [] \<Longrightarrow> consumes (then_p (string_p t) p)"
  unfolding then_p_def by (intro consumes_map_p consumes_seq2_left consumes_string_p)

lemma shrinks_at_least1: "shrinks p \<Longrightarrow> shrinks (at_least1 p)"
  unfolding at_least1_def by (intro shrinks_intros)

lemma shrinks_ur_morph: "shrinks ur_morph"
  unfolding ur_morph_def ur_suffix_def ur_enclitic_def ur_prefix_def ur_proclitic_def
    ur_root_def ur_morph_core_def
  by (intro shrinks_intros shrinks_at_least1 consumes_shrinks consumes_ur_proc consumes_form_seg)

lemma shrinks_sr_morph: "shrinks sr_morph"
  unfolding sr_morph_def sr_suffix_def sr_enclitic_def sr_prefix_def sr_proclitic_def
    sr_root_def sr_morph_core_def
  by (intro shrinks_intros shrinks_at_least1 consumes_shrinks consumes_sr_proc consumes_form_seg)

lemma shrinks_gloss_morph: "shrinks gloss_morph"
  unfolding gloss_morph_def gloss_morph_suffix_def gloss_morph_enclitic_def
    gloss_morph_prefix_def gloss_morph_proclitic_def gloss_morph_root_def
    gloss_morph_core_def gloss_seg_def
  by (intro shrinks_intros)

lemma shrinks_pg_morphs: "shrinks (alt (alt pg_suffix pg_prefix) pg_root)"
  unfolding pg_suffix_def pg_prefix_def pg_root_def pg_morph_def pg_feature_def
    then_p_def skip_p_def
  by (intro shrinks_intros)

text \<open>Every parser that the two scripts put under \<open>many\<close>, \<open>at_least\<close> or
  \<open>sep_by\<close> consumes.\<close>

lemma repeated_parsers_consume:
  "consumes pg_process"
  "consumes (then_p (string_p '','') (map_p int_of_digits (regex_plus is_digit)))"
  "consumes (then_p (string_p '' '') (alt (alt pg_suffix pg_prefix) pg_root))"
  "consumes (alt ur_proc form_seg)"
  "consumes (alt sr_proc form_seg)"
  "consumes (then_p (string_p '' '') ur_morph)"
  "consumes (then_p (string_p '' '') sr_morph)"
  "consumes gloss_proc"
  "consumes (then_p (string_p '','') (map_p int_of_digits (regex_one is_digit)))"
  "consumes (then_p (string_p '' '') gloss_morph)"
  by (intro consumes_pg_process consumes_separated consumes_alt consumes_ur_proc
        consumes_sr_proc consumes_form_seg consumes_gloss_proc shrinks_intros
        shrinks_pg_morphs shrinks_ur_morph shrinks_sr_morph shrinks_gloss_morph; simp)+

subsection \<open>What the values of a parser satisfy\<close>













subsection \<open>The span numbering of one morph\<close>

text \<open>
  Claim C1. On the morph \<open>a{b>c}d\<close> the span numbering returns the morph type root and
  the four characters a (B, S, span 0), b (I, D, span 0), c (U, A, span 1) and
  d (L, S, span 0), in this order and each with an empty gloss; as a one-morph line,
  \<open>parse_ur\<close> returns the same four characters.
\<close>

theorem parse_ur_morph_process_example:
  "parse_ur_morph ''a{b>c}d'' = Inr (''root'',
     [\<lparr>char = CHR ''a'', tag = ''B'', op = ''S'', span = 0, gloss = ''''\<rparr>,
      \<lparr>char = CHR ''b'', tag = ''I'', op = ''D'', span = 0, gloss = ''''\<rparr>,
      \<lparr>char = CHR ''c'', tag = ''U'', op = ''A'', span = 1, gloss = ''''\<rparr>,
      \<lparr>char = CHR ''d'', tag = ''L'', op = ''S'', span = 0, gloss = ''''\<rparr>])
   \<and> parse_ur ''a{b>c}d'' = Inr
     [\<lparr>char = CHR ''a'', tag = ''B'', op = ''S'', span = 0, gloss = ''''\<rparr>,
      \<lparr>char = CHR ''b'', tag = ''I'', op = ''D'', span = 0, gloss = ''''\<rparr>,
      \<lparr>char = CHR ''c'', tag = ''U'', op = ''A'', span = 1, gloss = ''''\<rparr>,
      \<lparr>char = CHR ''d'', tag = ''L'', op = ''S'', span = 0, gloss = ''''\<rparr>]"
  by code_simp

subsection \<open>Span ids across the morphs of a line\<close>


lemma set_last_tag_nonempty [simp]: "set_last_tag t cs \<noteq> []"
  by (simp add: set_last_tag_def)












subsection \<open>The offset of the binder\<close>

text \<open>
  Claim C3. For a gloss morph at matrix index \<open>m\<close> with the processes
  \<open>[("X", []), ("Y", [2])]\<close>, entered with offset 1, the binder binds \<open>m\<close> to the base
  feature of the morph, \<open>m + 1\<close> to X and \<open>m + 2\<close> to Y, changes no other key, and
  leaves the offset at 3. The gloss \<open>base{X}{Y;2}\<close> parses to such a morph.
\<close>

theorem bind_morph_offset_example:
  "bind_morph m (1, sg) (base, [(''X'', []), (''Y'', [2])]) =
     (3, sg(m \<mapsto> base, m + 1 \<mapsto> ''X'', m + 2 \<mapsto> ''Y''))
   \<and> snd (bind_morph m (1, sg) (base, [(''X'', []), (''Y'', [2])])) m = Some base
   \<and> snd (bind_morph m (1, sg) (base, [(''X'', []), (''Y'', [2])])) (m + 1) = Some ''X''
   \<and> snd (bind_morph m (1, sg) (base, [(''X'', []), (''Y'', [2])])) (m + 2) = Some ''Y''
   \<and> fst (bind_morph m (1, sg) (base, [(''X'', []), (''Y'', [2])])) = 3
   \<and> parse_gloss ''base{X}{Y;2}'' = Some [(''base'', [(''X'', []), (''Y'', [2])])]"
proof -
  have b: "bind_morph m (1, sg) (base, [(''X'', []), (''Y'', [2])]) =
     (3, sg(m \<mapsto> base, m + 1 \<mapsto> ''X'', m + 2 \<mapsto> ''Y''))"
    by (simp add: bind_morph_def bind_proc_def bind_spans_def)
  have p: "parse_gloss ''base{X}{Y;2}'' = Some [(''base'', [(''X'', []), (''Y'', [2])])]"
    by code_simp
  show ?thesis unfolding b using p by simp
qed

subsection \<open>A word boundary is never bound\<close>

















subsection \<open>The process counts of a token\<close>

lemma num_gloss_procs_sum:
  "num_gloss_procs g_procs = int (sum_list (map (\<lambda>p. length (snd p)) g_procs))"
proof -
  have "foldl (\<lambda>n p. n + int (length (snd p))) a g_procs
          = a + int (sum_list (map (\<lambda>p. length (snd p)) g_procs))" for a
    by (induction g_procs arbitrary: a) auto
  then show ?thesis by (simp add: num_gloss_procs_def)
qed

lemma num_form_procs_count:
  "num_form_procs form = int (length (filter (\<lambda>t. fst t = ''proc'') form))"
  unfolding num_form_procs_def by (induction form) auto

lemma gloss_proc_unqualified_shape:
  assumes "f \<noteq> []" and "\<forall>c\<in>set f. is_feature_char c"
  shows "gloss_proc (''{'' @ f @ ''}'' @ rest) = Some ((f, [- 1]), rest)"
proof -
  have "\<not> is_feature_char CHR ''}''" by (simp add: is_feature_char_def)
  then have 1: "regex_plus is_feature_char (f @ CHR ''}'' # rest) = Some (f, CHR ''}'' # rest)"
    by (rule regex_plus_app[OF assms(2) assms(1)])
  have q: "gloss_proc_qualified (''{'' @ f @ ''}'' @ rest) = None"
    using 1 by (simp add: gloss_proc_qualified_def add_p_def map_p_def seq2_def string_p_Cons)
  have u: "gloss_proc_unqualified (''{'' @ f @ ''}'' @ rest) = Some ((f, [- 1]), rest)"
    using 1 by (simp add: gloss_proc_unqualified_def add_p_def map_p_def seq2_def string_p_Cons)
  show ?thesis using q u by (simp add: gloss_proc_def alt_def)
qed

lemma more_indices:
  assumes "\<forall>x\<in>set ds. is_digit x"
  shows "many (then_p (string_p '','') (map_p int_of_digits (regex_one is_digit)))
           (concat (map (\<lambda>x. [CHR '','', x]) ds) @ CHR ''}'' # rest)
         = Some (map (\<lambda>x. int (digit_val x)) ds, CHR ''}'' # rest)"
  using assms
proof (induction ds)
  case Nil
  then show ?case
    by (simp add: many.simps[of _ "CHR ''}'' # rest"] then_p_def map_p_def seq2_def string_p_Cons)
next
  case (Cons d ds)
  then show ?case
    by (simp add: many.simps[of _ "CHR '','' # d # concat (map (\<lambda>x. [CHR '','', x]) ds) @ CHR ''}'' # rest"]
          then_p_def map_p_def seq2_def string_p_Cons regex_one_def int_of_digits_def)
qed

lemma gloss_proc_qualified_shape:
  assumes "f \<noteq> []" and "\<forall>c\<in>set f. is_feature_char c"
    and "is_digit d" and "\<forall>x\<in>set ds. is_digit x"
  shows "gloss_proc (''{'' @ f @ '';'' @ d # concat (map (\<lambda>x. [CHR '','', x]) ds) @ ''}'' @ rest)
           = Some ((f, map (\<lambda>x. int (digit_val x)) (d # ds)), rest)"
proof -
  have "\<not> is_feature_char CHR '';''" by (simp add: is_feature_char_def)
  then have 1: "regex_plus is_feature_char
       (f @ CHR '';'' # d # concat (map (\<lambda>x. [CHR '','', x]) ds) @ CHR ''}'' # rest)
       = Some (f, CHR '';'' # d # concat (map (\<lambda>x. [CHR '','', x]) ds) @ CHR ''}'' # rest)"
    by (rule regex_plus_app[OF assms(2) assms(1)])
  have "gloss_proc_qualified
          (''{'' @ f @ '';'' @ d # concat (map (\<lambda>x. [CHR '','', x]) ds) @ ''}'' @ rest)
           = Some ((f, map (\<lambda>x. int (digit_val x)) (d # ds)), rest)"
    using 1 more_indices[OF assms(4), of rest] assms(3)
    by (simp add: gloss_proc_qualified_def add_p_def map_p_def seq2_def string_p_Cons
          sep_by1_def regex_one_def int_of_digits_def)
  then show ?thesis by (simp add: gloss_proc_def alt_def)
qed

text \<open>
  Claim C5. \<open>validate_procs\<close> raises AlignmentError exactly when the three counts are
  not all equal, and returns otherwise; the UR and SR counts are the numbers of
  \<open>proc\<close> tokens of the morphs, the gloss count is the sum of the lengths of the index
  lists of the attached processes. The gloss grammar gives an unqualified process
  \<open>{F}\<close> the one index \<open>-1\<close>, and a qualified process \<open>{F;d,...,d}\<close> its listed
  digits. UR \<open>cat\<close>, SR \<open>cat\<close> and gloss \<open>cat{NOUN}\<close> parse to counts 0, 0 and 1 and
  raise AlignmentError.
\<close>

theorem validate_procs_counts:
  "(validate_procs u s (ft, g_procs) = Inl AlignmentError) =
     (\<not> (length (filter (\<lambda>t. fst t = ''proc'') u) = length (filter (\<lambda>t. fst t = ''proc'') s) \<and>
         length (filter (\<lambda>t. fst t = ''proc'') s) = sum_list (map (\<lambda>p. length (snd p)) g_procs)))
   \<and> (validate_procs u s (ft, g_procs) = Inr ()) =
     (length (filter (\<lambda>t. fst t = ''proc'') u) = length (filter (\<lambda>t. fst t = ''proc'') s) \<and>
      length (filter (\<lambda>t. fst t = ''proc'') s) = sum_list (map (\<lambda>p. length (snd p)) g_procs))
   \<and> (f \<noteq> [] \<and> (\<forall>c\<in>set f. is_feature_char c) \<longrightarrow>
        gloss_proc (''{'' @ f @ ''}'' @ rest) = Some ((f, [- 1]), rest))
   \<and> (f \<noteq> [] \<and> (\<forall>c\<in>set f. is_feature_char c) \<and> is_digit d \<and> (\<forall>x\<in>set ds. is_digit x) \<longrightarrow>
        gloss_proc (''{'' @ f @ '';'' @ d # concat (map (\<lambda>x. [CHR '','', x]) ds) @ ''}'' @ rest)
          = Some ((f, map (\<lambda>x. int (digit_val x)) (d # ds)), rest))
   \<and> parse ur_form ''cat'' = Some [(''root'', [(''seg'', ''cat'')])]
   \<and> parse sr_form ''cat'' = Some [(''root'', [(''seg'', ''cat'')])]
   \<and> parse gloss_parser ''cat{NOUN}'' = Some [(''root'', (''cat'', [(''NOUN'', [- 1])]))]
   \<and> num_form_procs [(''seg'', ''cat'')] = 0
   \<and> num_gloss_procs [(''NOUN'', [- 1])] = 1
   \<and> validate_procs [(''seg'', ''cat'')] [(''seg'', ''cat'')] (''cat'', [(''NOUN'', [- 1])])
        = Inl AlignmentError"
proof -
  have a: "(validate_procs u s (ft, g_procs) = Inl AlignmentError) =
     (\<not> (length (filter (\<lambda>t. fst t = ''proc'') u) = length (filter (\<lambda>t. fst t = ''proc'') s) \<and>
         length (filter (\<lambda>t. fst t = ''proc'') s) = sum_list (map (\<lambda>p. length (snd p)) g_procs)))"
    by (simp add: validate_procs_def num_form_procs_count num_gloss_procs_sum)
  have b: "(validate_procs u s (ft, g_procs) = Inr ()) =
     (length (filter (\<lambda>t. fst t = ''proc'') u) = length (filter (\<lambda>t. fst t = ''proc'') s) \<and>
      length (filter (\<lambda>t. fst t = ''proc'') s) = sum_list (map (\<lambda>p. length (snd p)) g_procs))"
    by (simp add: validate_procs_def num_form_procs_count num_gloss_procs_sum)
  have c: "parse ur_form ''cat'' = Some [(''root'', [(''seg'', ''cat'')])]
   \<and> parse sr_form ''cat'' = Some [(''root'', [(''seg'', ''cat'')])]
   \<and> parse gloss_parser ''cat{NOUN}'' = Some [(''root'', (''cat'', [(''NOUN'', [- 1])]))]
   \<and> num_form_procs [(''seg'', ''cat'')] = 0
   \<and> num_gloss_procs [(''NOUN'', [- 1])] = 1
   \<and> validate_procs [(''seg'', ''cat'')] [(''seg'', ''cat'')] (''cat'', [(''NOUN'', [- 1])])
        = Inl AlignmentError"
    by code_simp
  show ?thesis
    using a b c gloss_proc_unqualified_shape[of f rest] gloss_proc_qualified_shape[of f d ds rest]
    by blast
qed

text \<open>Claim C5 on the token \<open>c{a>o}t\<close>, \<open>c{o}t\<close>, \<open>cat{ABLAUT;1}\<close> and on the
  processes \<open>{NOUN}\<close> and \<open>{ABLAUT;1,2}\<close>.\<close>

theorem validate_procs_counts_witness:
  "validate_procs [(''seg'', ''c''), (''proc'', ''{a>o}''), (''seg'', ''t'')]
      [(''seg'', ''c''), (''proc'', ''{o}''), (''seg'', ''t'')] (''cat'', [(''ABLAUT'', [1])]) = Inr ()
   \<and> gloss_proc ''{NOUN}'' = Some ((''NOUN'', [- 1]), [])
   \<and> gloss_proc ''{ABLAUT;1,2}'' = Some ((''ABLAUT'', [1, 2]), [])"
  using validate_procs_counts [of "[(''seg'', ''c''), (''proc'', ''{a>o}''), (''seg'', ''t'')]"
      "[(''seg'', ''c''), (''proc'', ''{o}''), (''seg'', ''t'')]" "''cat''" "[(''ABLAUT'', [1])]"
      "''NOUN''" "[]" "CHR ''1''" "''2''"]
    validate_procs_counts [of "[]" "[]" "''x''" "[]" "''ABLAUT''" "[]" "CHR ''1''" "''2''"]
  by (simp add: is_feature_char_def is_digit_def digit_val_def)

subsection \<open>A UR process has a target\<close>

text \<open>
  Claim C6, as stated, fails. \<open>{a}\<close> is not a UR process, and the UR grammar rejects
  the line \<open>{a}\<close>: \<open>ur_proc\<close> requires the \<open>>\<close>.
\<close>

theorem ur_proc_without_target_rejected:
  "ur_proc ''{a}'' = None \<and> parse ur_form ''{a}'' = None"
  by code_simp

text \<open>
  Claim C6, amended. For every source and target over the characters other than \<open>}\<close>
  and \<open>>\<close> (either may be empty), \<open>{source>target}\<close> parses as a UR process token
  whose text is the whole bracket; \<open>{source}\<close>, without \<open>>\<close>, does not parse as a
  UR process.
\<close>

theorem ur_proc_needs_target:
  assumes "\<forall>c\<in>set src. c \<noteq> CHR ''}'' \<and> c \<noteq> CHR ''>''"
    and "\<forall>c\<in>set tgt. c \<noteq> CHR ''}'' \<and> c \<noteq> CHR ''>''"
  shows "ur_proc (''{'' @ src @ ''>'' @ tgt @ ''}'' @ rest) =
           Some ((''proc'', ''{'' @ src @ ''>'' @ tgt @ ''}''), rest)
         \<and> ur_proc (''{'' @ src @ ''}'' @ rest) = None"
proof -
  let ?cls = "\<lambda>c. c \<notin> set ''}>''"
  have s: "\<forall>c\<in>set src. ?cls c" and t: "\<forall>c\<in>set tgt. ?cls c"
    using assms by auto
  have 1: "regex_star ?cls (src @ CHR ''>'' # tgt @ ''}'' @ rest)
             = Some (src, CHR ''>'' # tgt @ ''}'' @ rest)"
    by (rule regex_star_app[OF s]) simp
  have 2: "regex_star ?cls (tgt @ CHR ''}'' # rest) = Some (tgt, CHR ''}'' # rest)"
    by (rule regex_star_app[OF t]) simp
  have 3: "regex_star ?cls (src @ CHR ''}'' # rest) = Some (src, CHR ''}'' # rest)"
    by (rule regex_star_app[OF s]) simp
  have a: "ur_proc (''{'' @ src @ ''>'' @ tgt @ ''}'' @ rest) =
           Some ((''proc'', ''{'' @ src @ ''>'' @ tgt @ ''}''), rest)"
    using 1 2 by (simp add: ur_proc_def add_p_def map_p_def seq2_def string_p_Cons)
  have b: "ur_proc (''{'' @ src @ ''}'' @ rest) = None"
    using 3 by (simp add: ur_proc_def add_p_def map_p_def seq2_def string_p_Cons)
  show ?thesis using a b by simp
qed

text \<open>The amended claim C6 on \<open>{a>o}\<close> and \<open>{a}\<close>, each followed by \<open>t\<close>.\<close>

theorem ur_proc_needs_target_witness:
  "ur_proc ''{a>o}t'' = Some ((''proc'', ''{a>o}''), ''t'') \<and> ur_proc ''{a}t'' = None"
  using ur_proc_needs_target [of "''a''" "''o''" "''t''"] by simp

subsection \<open>Morphs of a gloss line are separated by a space\<close>

text \<open>
  Claim C7, as stated, fails. Both gloss grammars reject \<open>un-do\<close>: after the prefix
  \<open>un-\<close> the next morph must follow a space, and \<open>parse\<close> requires the end of the
  input.
\<close>

theorem gloss_un_do_rejected:
  "parse gloss_parser ''un-do'' = None \<and> parse_gloss ''un-do'' = None"
  by code_simp

text \<open>
  Claim C7, amended. Parsing the gloss line \<open>un- do\<close> with the gloss grammar of the
  validator succeeds and yields \<open>[(prefix, ("un", [])), (root, ("do", []))]\<close>;
  \<open>parse_gloss\<close> yields the same two morphs without their types.
\<close>

theorem gloss_un_do_spaced:
  "parse gloss_parser ''un- do'' = Some [(''prefix'', (''un'', [])), (''root'', (''do'', []))]
   \<and> parse_gloss ''un- do'' = Some [(''un'', []), (''do'', [])]"
  by code_simp

subsection \<open>The empty line\<close>

text \<open>
  Claim C8. The UR, SR and gloss grammars and \<open>parse_gloss\<close> accept the empty line and
  return no morph. The span numbering does not return on it: \<open>"".split(" ")\<close> is the
  one empty piece, on which \<open>parse_ur_morph\<close> reaches \<open>chars[-1].tag = "L"\<close> with no
  character emitted, and \<open>parse_ur\<close> raises IndexError.
\<close>

theorem empty_line_parses_but_numbering_raises:
  "parse ur_form '''' = Some [] \<and> parse sr_form '''' = Some [] \<and>
   parse gloss_parser '''' = Some [] \<and> parse_gloss '''' = Some [] \<and>
   split_sp [] '''' = [''''] \<and>
   parse_ur_morph '''' = Inl IndexError \<and> parse_ur '''' = Inl IndexError"
  by code_simp

subsection \<open>The schema check\<close>

text \<open>
  Claim C9. \<open>validate_fields\<close> raises StructureError for an unknown key and for a leaf
  of the wrong type at the top level, and for both inside a dict stored under \<open>segs\<close>.
  Inside the records of a \<open>segs\<close> list it checks nothing: a document whose record has
  the unknown key \<open>bogus\<close> and a string as \<open>speaker\<close> passes, as does every document
  of the three top-level keys whose \<open>segs\<close> is a list, whatever the list holds.
\<close>

theorem validate_fields_skips_seg_records:
  "validate_fields (YDict [(''obj_lang'', YStr ''en''), (''meta_lang'', YList [YStr ''en'']),
      (''segs'', YList [YDict [(''speaker'', YStr ''Bob''), (''bogus'', YInt 1)]])]) = Inr ()
   \<and> validate_fields (YDict [(''obj_lang'', YStr a), (''meta_lang'', YList l),
      (''segs'', YList records)]) = Inr ()
   \<and> validate_fields (YDict [(''segs'', YDict [(''speaker'', YStr ''Bob'')])]) = Inl StructureError
   \<and> validate_fields (YDict [(''segs'', YDict [(''bogus'', YInt 1)])]) = Inl StructureError
   \<and> validate_fields (YDict [(''bogus'', YInt 1)]) = Inl StructureError
   \<and> validate_fields (YDict [(''obj_lang'', YInt 1)]) = Inl StructureError"
proof -
  have any: "validate_fields (YDict [(''obj_lang'', YStr a), (''meta_lang'', YList l),
      (''segs'', YList records)]) = Inr ()"
    by (simp add: validate_fields_def schema_def)
  have rest: "validate_fields (YDict [(''obj_lang'', YStr ''en''), (''meta_lang'', YList [YStr ''en'']),
      (''segs'', YList [YDict [(''speaker'', YStr ''Bob''), (''bogus'', YInt 1)]])]) = Inr ()
   \<and> validate_fields (YDict [(''segs'', YDict [(''speaker'', YStr ''Bob'')])]) = Inl StructureError
   \<and> validate_fields (YDict [(''segs'', YDict [(''bogus'', YInt 1)])]) = Inl StructureError
   \<and> validate_fields (YDict [(''bogus'', YInt 1)]) = Inl StructureError
   \<and> validate_fields (YDict [(''obj_lang'', YInt 1)]) = Inl StructureError"
    by code_simp
  show ?thesis using any rest by simp
qed

subsection \<open>What leaves the top level\<close>

text \<open>
  Claim C10. The outer handlers of \<open>validate\<close> print parsy's ParseError,
  StructureError and AlignmentError, so a document with an unknown key and a document
  with disagreeing process counts both end without an exception. The
  \<open>yaml.parser.ParserError\<close> that \<open>validate\<close> raises for a file that is not valid YAML is
  none of the three classes and leaves \<open>validate\<close>.
\<close>

theorem validate_propagates_yaml_error:
  "validate fn (LoadRaises ParserError) verbose =
     (Line (''Validating '' @ fn @ ''...'') # say verbose ''Valid YAML?...'', Some ParserError)
   \<and> outer_except p ParseError = (p @ [Printed ParseError], None)
   \<and> outer_except p StructureError = (p @ [Printed StructureError], None)
   \<and> outer_except p AlignmentError = (p @ [Printed AlignmentError], None)
   \<and> snd (validate fn (Loaded (YDict [(''bogus'', YInt 1)])) verbose) = None
   \<and> snd (validate fn (Loaded (YDict [(''segs'', YList [YDict
          [(''ur'', YStr ''cat''), (''sr'', YStr ''cat''), (''gl'', YStr ''cat{NOUN}'')]])]))
        verbose) = None"
proof -
  have f1: "validate_fields (YDict [(''bogus'', YInt 1)]) = Inl StructureError"
    by code_simp
  have f2: "validate_fields (YDict [(''segs'', YList [YDict
          [(''ur'', YStr ''cat''), (''sr'', YStr ''cat''), (''gl'', YStr ''cat{NOUN}'')]])])
        = Inr ()"
    by code_simp
  have s2: "validate_segs (YDict [(''segs'', YList [YDict
          [(''ur'', YStr ''cat''), (''sr'', YStr ''cat''), (''gl'', YStr ''cat{NOUN}'')]])])
        = Inl AlignmentError"
    by code_simp
  show ?thesis
    by (simp add: validate_def outer_except_def f1 f2 s2 Let_def)
qed

end
